theory Spec2Isabelle
  imports Main
begin

section \<open>JavaScript values and exceptions\<close>

text \<open>
  The values the chat page and the FAQ page handle are JSON values, plus \<open>undefined\<close>
  (the value of a missing property). Strings are lists of 8-bit characters (code units
  0 to 255); numbers are the integers. An object is the list of its own properties in
  enumeration order. The model is exact on the values \<open>exact\<close> below singles out: a
  number of the engine is a double, which is an integer printed with all its digits only
  from \<open>-(2^53 - 1)\<close> to \<open>2^53 - 1\<close>, and the engine enumerates the properties
  whose key is an array index before the others.
\<close>

datatype jsval =
    Undefined
  | Null
  | Bool bool
  | Num int
  | Str string
  | Arr "jsval list"
  | Obj "(string \<times> jsval) list"

text \<open>
  An exception carries what the handlers can observe of it. \<open>Thrown m\<close> is
  \<^verbatim>\<open>new Error(m)\<close> of the source; \<open>FetchRejected d\<close> is the rejection of
  \<^verbatim>\<open>fetch\<close> on a transport failure, with the platform's description \<open>d\<close>; the others
  are raised by the platform.
\<close>

datatype exn =
    Thrown string
  | FetchRejected string
  | SyntaxError
  | TypeError
  | InvalidCharacterError
  | QuotaExceededError

subsection \<open>Numbers and strings\<close>

definition digit_char :: "nat \<Rightarrow> char" where
  "digit_char d = char_of (48 + d)"

fun digits :: "nat \<Rightarrow> string" where
  "digits n = (if n < 10 then [digit_char n] else digits (n div 10) @ [digit_char (n mod 10)])"

declare digits.simps [simp del]

definition show_int :: "int \<Rightarrow> string" where
  "show_int i = (if i < 0 then CHR ''-'' # digits (nat (- i)) else digits (nat i))"

text \<open>\<^verbatim>\<open>String.prototype.trim\<close>: the white space and line terminators among the code units 0 to 255.\<close>

definition is_trim_space :: "char \<Rightarrow> bool" where
  "is_trim_space c \<longleftrightarrow> of_char c \<in> {9, 10, 11, 12, 13, 32, 160 :: nat}"

definition trim :: "string \<Rightarrow> string" where
  "trim s = rev (dropWhile is_trim_space (rev (dropWhile is_trim_space s)))"

fun join :: "'a list \<Rightarrow> 'a list list \<Rightarrow> 'a list" where
  "join sep [] = []"
| "join sep [x] = x"
| "join sep (x # y # ys) = x @ sep @ join sep (y # ys)"

text \<open>
  \<^verbatim>\<open>ToString\<close>, as a template literal and the \<^verbatim>\<open>Error\<close> constructor apply it. An array
  joins its elements with commas, \<open>null\<close> and \<open>undefined\<close> elements giving the empty
  string; an object gives \<^verbatim>\<open>[object Object]\<close>. A number is printed with all its digits,
  which is what the engine does for the integers from \<open>-(2^53 - 1)\<close> to \<open>2^53 - 1\<close>.
\<close>

fun to_string :: "jsval \<Rightarrow> string" where
  "to_string Undefined = ''undefined''"
| "to_string Null = ''null''"
| "to_string (Bool b) = (if b then ''true'' else ''false'')"
| "to_string (Num i) = show_int i"
| "to_string (Str s) = s"
| "to_string (Arr xs) =
     join '','' (map (\<lambda>x. if x = Undefined \<or> x = Null then [] else to_string x) xs)"
| "to_string (Obj kvs) = ''[object Object]''"


text \<open>
  Reading a property \<^verbatim>\<open>v.k\<close>, for the keys the source reads (\<open>role\<close>, \<open>content\<close>,
  \<open>response\<close>, \<open>detail\<close>; none of them is a built-in property of a string, a number, a
  boolean or an array): a \<open>TypeError\<close> on \<open>null\<close> and \<open>undefined\<close>, the own property of
  an object, \<open>undefined\<close> otherwise.
\<close>

fun lookup :: "(string \<times> jsval) list \<Rightarrow> string \<Rightarrow> jsval" where
  "lookup [] k = Undefined"
| "lookup ((k', v) # kvs) k = (if k' = k then v else lookup kvs k)"

fun get_prop :: "jsval \<Rightarrow> string \<Rightarrow> exn + jsval" where
  "get_prop Undefined k = Inl TypeError"
| "get_prop Null k = Inl TypeError"
| "get_prop (Obj kvs) k = Inr (lookup kvs k)"
| "get_prop v k = Inr Undefined"

text \<open>\<^verbatim>\<open>v.push(x)\<close>: only an array has the method.\<close>

fun push :: "jsval \<Rightarrow> jsval \<Rightarrow> exn + jsval" where
  "push (Arr xs) x = Inr (Arr (xs @ [x]))"
| "push v x = Inl TypeError"

section \<open>JSON text\<close>

subsection \<open>\<^verbatim>\<open>JSON.stringify\<close>\<close>

definition hex_char :: "nat \<Rightarrow> char" where
  "hex_char d = (if d < 10 then char_of (48 + d) else char_of (87 + d))"

definition quote_char :: "char \<Rightarrow> string" where
  "quote_char c =
     (if c = CHR ''\"'' then [CHR 0x5C, CHR ''\"'']
      else if c = CHR 0x5C then [CHR 0x5C, CHR 0x5C]
      else if c = CHR 0x08 then [CHR 0x5C, CHR ''b'']
      else if c = CHR 0x0C then [CHR 0x5C, CHR ''f'']
      else if c = CHR 0x0A then [CHR 0x5C, CHR ''n'']
      else if c = CHR 0x0D then [CHR 0x5C, CHR ''r'']
      else if c = CHR 0x09 then [CHR 0x5C, CHR ''t'']
      else if (of_char c :: nat) < 32
        then [CHR 0x5C, CHR ''u'', CHR ''0'', CHR ''0'',
              hex_char (of_char c div 16), hex_char (of_char c mod 16)]
      else [c])"

definition quote :: "string \<Rightarrow> string" where
  "quote s = CHR ''\"'' # concat (map quote_char s) @ [CHR ''\"'']"

text \<open>
  \<open>stringify v\<close> is \<open>None\<close> where \<^verbatim>\<open>JSON.stringify\<close> returns \<open>undefined\<close>. An
  \<open>undefined\<close> array element is written \<open>null\<close>, and a property whose value is
  \<open>undefined\<close> is left out.
\<close>

fun stringify :: "jsval \<Rightarrow> string option" where
  "stringify Undefined = None"
| "stringify Null = Some ''null''"
| "stringify (Bool b) = Some (if b then ''true'' else ''false'')"
| "stringify (Num i) = Some (show_int i)"
| "stringify (Str s) = Some (quote s)"
| "stringify (Arr xs) =
     Some (''['' @ join '','' (map (\<lambda>x. case stringify x of None \<Rightarrow> ''null'' | Some t \<Rightarrow> t) xs) @ '']'')"
| "stringify (Obj kvs) =
     Some (''{'' @ join '',''
        (concat (map (\<lambda>(k, v). case stringify v of None \<Rightarrow> [] | Some t \<Rightarrow> [quote k @ '':'' @ t]) kvs))
        @ ''}'')"

subsection \<open>\<^verbatim>\<open>JSON.parse\<close>\<close>

text \<open>
  The parser is a lexer followed by a stack machine over the tokens. The values it builds
  are those of the JSON texts with integer number literals and strings within the code
  units 0 to 255. A text with a fraction or exponent part, or a \<^verbatim>\<open>\u\<close> escape above
  \<^verbatim>\<open>00FF\<close>, is JSON that denotes a value outside the model: for such a text
  \<open>JSON_parse\<close> is \<open>None\<close>, and it is a \<open>SyntaxError\<close> only for a text that is not
  in the JSON grammar at all. \<open>tokenize\<close> and \<open>read_json\<close> read the texts of the
  fragment; \<open>scan\<close> and \<open>json_syntax\<close> recognise the whole grammar.
\<close>

datatype token =
    TLBrack | TRBrack | TLBrace | TRBrace | TColon | TComma
  | TNull | TTrue | TFalse | TNum int | TStr string

definition is_json_space :: "char \<Rightarrow> bool" where
  "is_json_space c \<longleftrightarrow> c = CHR 0x09 \<or> c = CHR 0x0A \<or> c = CHR 0x0D \<or> c = CHR 0x20"

definition is_digit :: "char \<Rightarrow> bool" where
  "is_digit c \<longleftrightarrow> (48::nat) \<le> of_char c \<and> (of_char c :: nat) \<le> 57"

definition hex_val :: "char \<Rightarrow> nat option" where
  "hex_val c =
     (let n = (of_char c :: nat) in
      if 48 \<le> n \<and> n \<le> 57 then Some (n - 48)
      else if 97 \<le> n \<and> n \<le> 102 then Some (n - 87)
      else if 65 \<le> n \<and> n \<le> 70 then Some (n - 55)
      else None)"

definition hex4 :: "char \<Rightarrow> char \<Rightarrow> char \<Rightarrow> char \<Rightarrow> nat option" where
  "hex4 a b c d =
     (case (hex_val a, hex_val b, hex_val c, hex_val d) of
        (Some x, Some y, Some z, Some w) \<Rightarrow> Some (((x * 16 + y) * 16 + z) * 16 + w)
      | _ \<Rightarrow> None)"

definition unescape :: "char \<Rightarrow> char option" where
  "unescape e =
     (if e = CHR ''\"'' then Some (CHR ''\"'')
      else if e = CHR 0x5C then Some (CHR 0x5C)
      else if e = CHR ''/'' then Some (CHR ''/'')
      else if e = CHR ''b'' then Some (CHR 0x08)
      else if e = CHR ''f'' then Some (CHR 0x0C)
      else if e = CHR ''n'' then Some (CHR 0x0A)
      else if e = CHR ''r'' then Some (CHR 0x0D)
      else if e = CHR ''t'' then Some (CHR 0x09)
      else None)"

definition cons_fst :: "'a \<Rightarrow> ('a list \<times> 'b) option \<Rightarrow> ('a list \<times> 'b) option" where
  "cons_fst x r = map_option (\<lambda>(s, t). (x # s, t)) r"

text \<open>The characters of a string literal after its opening quote, and the text after its closing quote.\<close>

fun lex_string :: "string \<Rightarrow> (string \<times> string) option" where
  "lex_string [] = None"
| "lex_string (c # cs) =
     (if c = CHR ''\"'' then Some ([], cs)
      else if c = CHR 0x5C then
        (case cs of
           [] \<Rightarrow> None
         | e # r \<Rightarrow>
             if e = CHR ''u'' then
               (case r of
                  h1 # h2 # h3 # h4 # r' \<Rightarrow>
                    (case hex4 h1 h2 h3 h4 of
                       None \<Rightarrow> None
                     | Some n \<Rightarrow> if n < 256 then cons_fst (char_of n) (lex_string r') else None)
                | _ \<Rightarrow> None)
             else
               (case unescape e of
                  None \<Rightarrow> None
                | Some x \<Rightarrow> cons_fst x (lex_string r)))
      else if (of_char c :: nat) < 32 then None
      else cons_fst c (lex_string cs))"

definition nat_of_digits :: "string \<Rightarrow> nat" where
  "nat_of_digits ds = foldl (\<lambda>n c. 10 * n + (of_char c - 48)) 0 ds"

text \<open>The integer part of a number: a single \<open>0\<close>, or a run of digits that does not start with \<open>0\<close>.\<close>

definition lex_nat :: "string \<Rightarrow> (nat \<times> string) option" where
  "lex_nat s =
     (case s of
        [] \<Rightarrow> None
      | c # r \<Rightarrow>
          if c = CHR ''0'' then Some (0, r)
          else if is_digit c then Some (nat_of_digits (takeWhile is_digit s), dropWhile is_digit s)
          else None)"

definition lex_number :: "string \<Rightarrow> (int \<times> string) option" where
  "lex_number s =
     (case s of
        [] \<Rightarrow> None
      | c # r \<Rightarrow>
          if c = CHR ''-'' then map_option (\<lambda>(n, t). (- int n, t)) (lex_nat r)
          else map_option (\<lambda>(n, t). (int n, t)) (lex_nat s))"

fun strip_prefix :: "string \<Rightarrow> string \<Rightarrow> string option" where
  "strip_prefix [] s = Some s"
| "strip_prefix (p # ps) [] = None"
| "strip_prefix (p # ps) (c # cs) = (if p = c then strip_prefix ps cs else None)"

lemma lex_string_shorter: "lex_string cs = Some (s, r) \<Longrightarrow> length r < Suc (length cs)"
proof (induction cs arbitrary: s r rule: lex_string.induct)
  case 1
  then show ?case by simp
next
  case (2 c cs)
  then show ?case
    by (fastforce simp: cons_fst_def split: if_splits list.splits option.splits)
qed

lemma lex_nat_shorter: "lex_nat s = Some (n, r) \<Longrightarrow> length r < length s"
  by (cases s) (auto simp: lex_nat_def length_dropWhile_le less_Suc_eq_le split: if_splits)

lemma lex_number_shorter: "lex_number s = Some (i, r) \<Longrightarrow> length r < length s"
  by (cases s) (auto simp: lex_number_def less_Suc_eq dest!: lex_nat_shorter split: if_splits)

lemma strip_prefix_length: "strip_prefix p s = Some r \<Longrightarrow> length s = length p + length r"
  by (induction p s rule: strip_prefix.induct) (auto split: if_splits)

lemma strip_prefix_shorter: "strip_prefix (p # ps) s = Some r \<Longrightarrow> length r < length s"
  by (drule strip_prefix_length) simp

definition cons_tok :: "token \<Rightarrow> token list option \<Rightarrow> token list option" where
  "cons_tok t r = map_option ((#) t) r"

function tokenize :: "string \<Rightarrow> token list option" where
  "tokenize [] = Some []"
| "tokenize (c # cs) =
     (if is_json_space c then tokenize cs
      else if c = CHR ''['' then cons_tok TLBrack (tokenize cs)
      else if c = CHR '']'' then cons_tok TRBrack (tokenize cs)
      else if c = CHR ''{'' then cons_tok TLBrace (tokenize cs)
      else if c = CHR ''}'' then cons_tok TRBrace (tokenize cs)
      else if c = CHR '':'' then cons_tok TColon (tokenize cs)
      else if c = CHR '','' then cons_tok TComma (tokenize cs)
      else if c = CHR ''\"'' then
        (case lex_string cs of None \<Rightarrow> None | Some (s, r) \<Rightarrow> cons_tok (TStr s) (tokenize r))
      else if c = CHR ''-'' \<or> is_digit c then
        (case lex_number (c # cs) of None \<Rightarrow> None | Some (i, r) \<Rightarrow> cons_tok (TNum i) (tokenize r))
      else
        (case strip_prefix ''null'' (c # cs) of
           Some r \<Rightarrow> cons_tok TNull (tokenize r)
         | None \<Rightarrow>
        (case strip_prefix ''true'' (c # cs) of
           Some r \<Rightarrow> cons_tok TTrue (tokenize r)
         | None \<Rightarrow>
        (case strip_prefix ''false'' (c # cs) of
           Some r \<Rightarrow> cons_tok TFalse (tokenize r)
         | None \<Rightarrow> None))))"
  by pat_completeness auto
termination
proof (relation "measure length")
  fix c cs x2 x y
  assume "lex_string cs = Some x2" "(x, y) = x2"
  then show "(y, c # cs) \<in> measure length"
    using lex_string_shorter [of cs x y] by simp
next
  fix c cs x2 x y
  assume "lex_number (c # cs) = Some x2" "(x, y) = x2"
  then show "(y, c # cs) \<in> measure length"
    using lex_number_shorter [of "c # cs" x y] by simp
qed (auto simp del: strip_prefix.simps dest: strip_prefix_shorter)

declare tokenize.simps [simp del]

text \<open>
  \<^verbatim>\<open>CreateDataProperty\<close>: a key that is already there keeps its place and takes the new
  value, so that of two members with the same key the later one wins.
\<close>

fun obj_set :: "(string \<times> jsval) list \<Rightarrow> string \<Rightarrow> jsval \<Rightarrow> (string \<times> jsval) list" where
  "obj_set [] k v = [(k, v)]"
| "obj_set ((k', v') # kvs) k v = (if k' = k then (k, v) # kvs else (k', v') # obj_set kvs k v)"

text \<open>
  The stack holds the arrays and objects that are open: for an array its elements so far,
  for an object its members so far and the key whose value is being read.
\<close>

datatype frame =
    InArr "jsval list"
  | InObj "(string \<times> jsval) list" string

fun parse_value :: "frame list \<Rightarrow> token list \<Rightarrow> jsval option"
  and parse_after :: "jsval \<Rightarrow> frame list \<Rightarrow> token list \<Rightarrow> jsval option" where
  "parse_value st [] = None"
| "parse_value st (t # ts) =
     (case t of
        TNull \<Rightarrow> parse_after Null st ts
      | TTrue \<Rightarrow> parse_after (Bool True) st ts
      | TFalse \<Rightarrow> parse_after (Bool False) st ts
      | TNum i \<Rightarrow> parse_after (Num i) st ts
      | TStr s \<Rightarrow> parse_after (Str s) st ts
      | TLBrack \<Rightarrow>
          (case ts of
             TRBrack # ts' \<Rightarrow> parse_after (Arr []) st ts'
           | _ \<Rightarrow> parse_value (InArr [] # st) ts)
      | TLBrace \<Rightarrow>
          (case ts of
             TRBrace # ts' \<Rightarrow> parse_after (Obj []) st ts'
           | TStr k # TColon # ts' \<Rightarrow> parse_value (InObj [] k # st) ts'
           | _ \<Rightarrow> None)
      | _ \<Rightarrow> None)"
| "parse_after v [] ts = (if ts = [] then Some v else None)"
| "parse_after v (InArr vs # st) ts =
     (case ts of
        TComma # ts' \<Rightarrow> parse_value (InArr (vs @ [v]) # st) ts'
      | TRBrack # ts' \<Rightarrow> parse_after (Arr (vs @ [v])) st ts'
      | _ \<Rightarrow> None)"
| "parse_after v (InObj kvs k # st) ts =
     (case ts of
        TComma # TStr k' # TColon # ts' \<Rightarrow> parse_value (InObj (obj_set kvs k v) k' # st) ts'
      | TRBrace # ts' \<Rightarrow> parse_after (Obj (obj_set kvs k v)) st ts'
      | _ \<Rightarrow> None)"

definition read_json :: "string \<Rightarrow> jsval option" where
  "read_json s = (case tokenize s of None \<Rightarrow> None | Some ts \<Rightarrow> parse_value [] ts)"

text \<open>
  The whole grammar: a string literal with any \<^verbatim>\<open>\u\<close> escape, and a number literal with
  its fraction and exponent parts. Each function returns the text after the literal.
\<close>

fun scan_string :: "string \<Rightarrow> string option" where
  "scan_string [] = None"
| "scan_string (c # cs) =
     (if c = CHR ''\"'' then Some cs
      else if c = CHR 0x5C then
        (case cs of
           [] \<Rightarrow> None
         | e # r \<Rightarrow>
             if e = CHR ''u'' then
               (case r of
                  h1 # h2 # h3 # h4 # r' \<Rightarrow>
                    (case hex4 h1 h2 h3 h4 of None \<Rightarrow> None | Some n \<Rightarrow> scan_string r')
                | _ \<Rightarrow> None)
             else
               (case unescape e of None \<Rightarrow> None | Some x \<Rightarrow> scan_string r))
      else if (of_char c :: nat) < 32 then None
      else scan_string cs)"

definition scan_digits :: "string \<Rightarrow> string option" where
  "scan_digits s =
     (case s of [] \<Rightarrow> None | c # r \<Rightarrow> if is_digit c then Some (dropWhile is_digit r) else None)"

definition scan_int :: "string \<Rightarrow> string option" where
  "scan_int s =
     (case s of [] \<Rightarrow> None | c # r \<Rightarrow> if c = CHR ''0'' then Some r else scan_digits s)"

definition scan_fraction :: "string \<Rightarrow> string option" where
  "scan_fraction s =
     (case s of [] \<Rightarrow> Some s | c # r \<Rightarrow> if c = CHR ''.'' then scan_digits r else Some s)"

definition scan_exponent :: "string \<Rightarrow> string option" where
  "scan_exponent s =
     (case s of
        [] \<Rightarrow> Some s
      | c # r \<Rightarrow>
          if c = CHR ''e'' \<or> c = CHR ''E'' then
            (case r of
               [] \<Rightarrow> None
             | d # r' \<Rightarrow> if d = CHR ''+'' \<or> d = CHR ''-'' then scan_digits r' else scan_digits r)
          else Some s)"

definition scan_number :: "string \<Rightarrow> string option" where
  "scan_number s =
     (case s of
        [] \<Rightarrow> None
      | c # r \<Rightarrow>
          (case scan_int (if c = CHR ''-'' then r else s) of
             None \<Rightarrow> None
           | Some r1 \<Rightarrow> (case scan_fraction r1 of None \<Rightarrow> None | Some r2 \<Rightarrow> scan_exponent r2)))"

lemma scan_string_shorter: "scan_string cs = Some r \<Longrightarrow> length r < Suc (length cs)"
proof (induction cs arbitrary: r rule: scan_string.induct)
  case 1
  then show ?case by simp
next
  case (2 c cs)
  then show ?case
    by (fastforce split: if_splits list.splits option.splits)
qed

lemma scan_digits_shorter: "scan_digits s = Some r \<Longrightarrow> length r < length s"
  by (cases s) (auto simp: scan_digits_def length_dropWhile_le less_Suc_eq_le split: if_splits)

lemma scan_int_shorter: "scan_int s = Some r \<Longrightarrow> length r < length s"
  by (cases s) (auto simp: scan_int_def dest: scan_digits_shorter split: if_splits)

lemma scan_fraction_shorter: "scan_fraction s = Some r \<Longrightarrow> length r \<le> length s"
  by (cases s) (auto simp: scan_fraction_def dest!: scan_digits_shorter split: if_splits)

lemma scan_exponent_shorter: "scan_exponent s = Some r \<Longrightarrow> length r \<le> length s"
  by (cases s)
    (auto simp: scan_exponent_def dest!: scan_digits_shorter split: if_splits list.splits)

lemma scan_number_shorter: "scan_number s = Some r \<Longrightarrow> length r < length s"
  by (cases s)
    (auto simp: scan_number_def
      dest!: scan_int_shorter scan_fraction_shorter scan_exponent_shorter
      split: if_splits option.splits)

text \<open>
  The tokens of a text of the whole grammar. A literal stands for itself only: every string
  is read as the empty one and every number as zero.
\<close>

function scan :: "string \<Rightarrow> token list option" where
  "scan [] = Some []"
| "scan (c # cs) =
     (if is_json_space c then scan cs
      else if c = CHR ''['' then cons_tok TLBrack (scan cs)
      else if c = CHR '']'' then cons_tok TRBrack (scan cs)
      else if c = CHR ''{'' then cons_tok TLBrace (scan cs)
      else if c = CHR ''}'' then cons_tok TRBrace (scan cs)
      else if c = CHR '':'' then cons_tok TColon (scan cs)
      else if c = CHR '','' then cons_tok TComma (scan cs)
      else if c = CHR ''\"'' then
        (case scan_string cs of None \<Rightarrow> None | Some r \<Rightarrow> cons_tok (TStr []) (scan r))
      else if c = CHR ''-'' \<or> is_digit c then
        (case scan_number (c # cs) of None \<Rightarrow> None | Some r \<Rightarrow> cons_tok (TNum 0) (scan r))
      else
        (case strip_prefix ''null'' (c # cs) of
           Some r \<Rightarrow> cons_tok TNull (scan r)
         | None \<Rightarrow>
        (case strip_prefix ''true'' (c # cs) of
           Some r \<Rightarrow> cons_tok TTrue (scan r)
         | None \<Rightarrow>
        (case strip_prefix ''false'' (c # cs) of
           Some r \<Rightarrow> cons_tok TFalse (scan r)
         | None \<Rightarrow> None))))"
  by pat_completeness auto
termination
proof (relation "measure length")
  fix c cs r
  assume "scan_string cs = Some r"
  then show "(r, c # cs) \<in> measure length"
    using scan_string_shorter [of cs r] by simp
next
  fix c cs r
  assume "scan_number (c # cs) = Some r"
  then show "(r, c # cs) \<in> measure length"
    using scan_number_shorter [of "c # cs" r] by simp
qed (auto simp del: strip_prefix.simps dest: strip_prefix_shorter)

declare scan.simps [simp del]

definition json_syntax :: "string \<Rightarrow> bool" where
  "json_syntax s = (case scan s of None \<Rightarrow> False | Some ts \<Rightarrow> parse_value [] ts \<noteq> None)"

text \<open>
  \<^verbatim>\<open>JSON.parse\<close>: the value of a text of the fragment, a \<open>SyntaxError\<close> for a text that
  is not JSON, and \<open>None\<close> for the JSON texts the model does not read. An integer
  literal is read as it is written: the engine rounds it to a double, which changes it
  only outside \<open>-(2^53 - 1)\<close> to \<open>2^53 - 1\<close>.
\<close>

definition JSON_parse :: "string \<Rightarrow> (exn + jsval) option" where
  "JSON_parse s =
     (case read_json s of
        Some v \<Rightarrow> Some (Inr v)
      | None \<Rightarrow> if json_syntax s then None else Some (Inl SyntaxError))"


section \<open>The network\<close>

record request =
  req_method :: string
  req_path :: string
  req_query :: "(string \<times> string) list"
  req_headers :: "(string \<times> string) list"
  req_body :: "string option"

text \<open>
  The handlers never see the text of a response: they read its status and await
  \<^verbatim>\<open>response.json()\<close>, which rejects with an exception or resolves with the value of the
  JSON document the body holds. A document is given by its syntax, within integer numbers
  and strings of the code units 0 to 255; \<open>value_of\<close> is the value the platform builds
  for it, where of two members with the same key the later one wins. It is the value of
  the engine for the documents whose value is \<open>exact\<close>.
\<close>

datatype json_doc =
    JNull
  | JBool bool
  | JNum int
  | JStr string
  | JArr "json_doc list"
  | JObj "(string \<times> json_doc) list"

fun value_of :: "json_doc \<Rightarrow> jsval" where
  "value_of JNull = Null"
| "value_of (JBool b) = Bool b"
| "value_of (JNum i) = Num i"
| "value_of (JStr s) = Str s"
| "value_of (JArr xs) = Arr (map value_of xs)"
| "value_of (JObj kvs) =
     Obj (foldl (\<lambda>acc kv. obj_set acc (fst kv) (snd kv)) [] (map (\<lambda>(k, v). (k, value_of v)) kvs))"

text \<open>
  How a call of \<^verbatim>\<open>fetch\<close> ends: the promise rejects on a transport failure, with the
  platform's description of it, or it resolves with a response, given by its status and by
  what \<^verbatim>\<open>response.json()\<close> settles to.
\<close>

datatype fetch_outcome =
    Rejected string
  | Response nat "exn + json_doc"

definition response_ok :: "nat \<Rightarrow> bool" where
  "response_ok status \<longleftrightarrow> 200 \<le> status \<and> status \<le> 299"

section \<open>The chat page\<close>

text \<open>
  The state of the page: the module variable \<^verbatim>\<open>chatHistory\<close>, the elements of the
  document the script reads and writes, and the entry \<^verbatim>\<open>chatHistory\<close> of
  \<^verbatim>\<open>localStorage\<close> (\<open>None\<close> when there is none). \<open>storage_full\<close> is the condition
  of the platform's storage on which \<^verbatim>\<open>setItem\<close> stores nothing and raises a
  \<open>QuotaExceededError\<close>. The scroll position and the console are left out.
\<close>

record message_div =
  classes :: "string list"
  textContent :: string

record chat_state =
  chatHistory :: jsval
  chatWindow :: "message_div list"
  messageInput :: string
  sendButton_disabled :: bool
  typingIndicator_hidden :: bool
  localStorage :: "string option"
  storage_full :: bool

definition API_ENDPOINT :: string where
  "API_ENDPOINT = ''/api/chat''"

text \<open>
  Assigning \<^verbatim>\<open>textContent\<close>: \<open>null\<close> and \<open>undefined\<close> give the empty text. A class
  token with ASCII white space makes \<^verbatim>\<open>classList.add\<close> raise.
\<close>

definition text_of :: "jsval \<Rightarrow> string" where
  "text_of v = (if v = Undefined \<or> v = Null then [] else to_string v)"

definition is_ascii_space :: "char \<Rightarrow> bool" where
  "is_ascii_space c \<longleftrightarrow> c = CHR 0x09 \<or> c = CHR 0x0A \<or> c = CHR 0x0C \<or> c = CHR 0x0D \<or> c = CHR 0x20"

definition classList_add :: "string list \<Rightarrow> string list \<Rightarrow> exn + string list" where
  "classList_add tokens cl =
     (if list_ex (\<lambda>t. t = []) tokens then Inl SyntaxError
      else if list_ex (list_ex is_ascii_space) tokens then Inl InvalidCharacterError
      else Inr (cl @ remdups (filter (\<lambda>t. t \<notin> set cl) tokens)))"

definition renderMessage :: "jsval \<Rightarrow> jsval \<Rightarrow> chat_state \<Rightarrow> exn + chat_state" where
  "renderMessage role content s =
     (case classList_add [''message'', to_string role @ ''-message''] [] of
        Inl e \<Rightarrow> Inl e
      | Inr cl \<Rightarrow>
          Inr (s\<lparr>chatWindow := chatWindow s @ [\<lparr>classes = cl, textContent = text_of content\<rparr>]\<rparr>))"

definition setUiWaitingState :: "bool \<Rightarrow> chat_state \<Rightarrow> chat_state" where
  "setUiWaitingState isWaiting s =
     (if isWaiting then s\<lparr>sendButton_disabled := True, typingIndicator_hidden := False\<rparr>
      else s\<lparr>sendButton_disabled := False, typingIndicator_hidden := True\<rparr>)"

definition saveHistoryToLocalStorage :: "chat_state \<Rightarrow> exn + chat_state" where
  "saveHistoryToLocalStorage s =
     (if storage_full s then Inl QuotaExceededError
      else Inr (s\<lparr>localStorage :=
        Some (case stringify (chatHistory s) of None \<Rightarrow> ''undefined'' | Some t \<Rightarrow> t)\<rparr>))"

text \<open>
  A handler that raises after it has changed the state returns the exception with the
  state it leaves behind. \<open>loadHistoryFromLocalStorage\<close> is \<open>None\<close> when the stored
  text is JSON the model does not read.
\<close>

fun forEach_render :: "jsval list \<Rightarrow> chat_state \<Rightarrow> (exn \<times> chat_state) + chat_state" where
  "forEach_render [] s = Inr s"
| "forEach_render (message # ms) s =
     (case get_prop message ''role'' of
        Inl e \<Rightarrow> Inl (e, s)
      | Inr role \<Rightarrow>
          (case get_prop message ''content'' of
             Inl e \<Rightarrow> Inl (e, s)
           | Inr content \<Rightarrow>
               (case renderMessage role content s of
                  Inl e \<Rightarrow> Inl (e, s)
                | Inr s' \<Rightarrow> forEach_render ms s')))"

definition loadHistoryFromLocalStorage ::
  "chat_state \<Rightarrow> ((exn \<times> chat_state) + chat_state) option" where
  "loadHistoryFromLocalStorage s =
     (case localStorage s of
        None \<Rightarrow> Some (Inr s)
      | Some savedHistory \<Rightarrow>
          if savedHistory = [] then Some (Inr s)
          else
            (case JSON_parse savedHistory of
               None \<Rightarrow> None
             | Some (Inl e) \<Rightarrow> Some (Inl (e, s))
             | Some (Inr h) \<Rightarrow>
                 (let s1 = s\<lparr>chatHistory := h, chatWindow := []\<rparr>
                  in case h of
                       Arr ms \<Rightarrow> Some (forEach_render ms s1)
                     | _ \<Rightarrow> Some (Inl (TypeError, s1)))))"

definition handleNewChat :: "chat_state \<Rightarrow> chat_state" where
  "handleNewChat s = s\<lparr>chatHistory := Arr [], chatWindow := [], localStorage := None\<rparr>"

text \<open>
  \<^verbatim>\<open>handleFormSubmit\<close> is asynchronous. \<open>handleFormSubmit_send\<close> is its run up to the
  \<^verbatim>\<open>await\<close> of \<^verbatim>\<open>fetch\<close>: it returns the new state and the request it has issued, if any.
  The \<^verbatim>\<open>push\<close> of the user message is outside the \<^verbatim>\<open>try\<close>, so its exception leaves
  the handler.
\<close>

definition chat_request :: "jsval \<Rightarrow> request" where
  "chat_request h =
     \<lparr>req_method = ''POST'', req_path = API_ENDPOINT, req_query = [],
      req_headers = [(''Content-Type'', ''application/json'')],
      req_body = stringify (Obj [(''messages'', h)])\<rparr>"

definition handleFormSubmit_send :: "chat_state \<Rightarrow> exn + chat_state \<times> request option" where
  "handleFormSubmit_send s =
     (let userInput = trim (messageInput s) in
      if userInput = [] then Inr (s, None)
      else
        (case push (chatHistory s) (Obj [(''role'', Str ''user''), (''content'', Str userInput)]) of
           Inl e \<Rightarrow> Inl e
         | Inr h \<Rightarrow>
             (case renderMessage (Str ''user'') (Str userInput) (s\<lparr>chatHistory := h\<rparr>) of
                Inl e \<Rightarrow> Inl e
              | Inr s1 \<Rightarrow>
                  (let s2 = setUiWaitingState True (s1\<lparr>messageInput := []\<rparr>)
                   in Inr (s2, Some (chat_request (chatHistory s2)))))))"

text \<open>The rest of the \<^verbatim>\<open>try\<close> block, once \<^verbatim>\<open>fetch\<close> has ended with \<open>out\<close>.\<close>

definition chat_try :: "fetch_outcome \<Rightarrow> chat_state \<Rightarrow> (exn \<times> chat_state) + chat_state" where
  "chat_try out s =
     (case out of
        Rejected d \<Rightarrow> Inl (FetchRejected d, s)
      | Response status body \<Rightarrow>
          if \<not> response_ok status then Inl (Thrown (''Server error: '' @ digits status), s)
          else
            (case body of
               Inl e \<Rightarrow> Inl (e, s)
             | Inr doc \<Rightarrow>
                 (case get_prop (value_of doc) ''response'' of
                    Inl e \<Rightarrow> Inl (e, s)
                  | Inr assistantResponse \<Rightarrow>
                      (case push (chatHistory s)
                              (Obj [(''role'', Str ''assistant''), (''content'', assistantResponse)]) of
                         Inl e \<Rightarrow> Inl (e, s)
                       | Inr h \<Rightarrow>
                           (case renderMessage (Str ''assistant'') assistantResponse
                                   (s\<lparr>chatHistory := h\<rparr>) of
                              Inl e \<Rightarrow> Inl (e, s\<lparr>chatHistory := h\<rparr>)
                            | Inr s1 \<Rightarrow>
                                (case saveHistoryToLocalStorage s1 of
                                   Inl e \<Rightarrow> Inl (e, s1)
                                 | Inr s2 \<Rightarrow> Inr s2))))))"

definition connection_trouble :: string where
  "connection_trouble = ''Sorry, I'' @ [CHR 0x27] @ ''m having trouble connecting. Please try again.''"

text \<open>The \<^verbatim>\<open>catch\<close> and \<^verbatim>\<open>finally\<close> blocks around it.\<close>

definition handleFormSubmit_resume :: "fetch_outcome \<Rightarrow> chat_state \<Rightarrow> (exn \<times> chat_state) + chat_state" where
  "handleFormSubmit_resume out s =
     (case chat_try out s of
        Inr s1 \<Rightarrow> Inr (setUiWaitingState False s1)
      | Inl (error, s1) \<Rightarrow>
          (case renderMessage (Str ''error'') (Str connection_trouble) s1 of
             Inl e \<Rightarrow> Inl (e, setUiWaitingState False s1)
           | Inr s2 \<Rightarrow> Inr (setUiWaitingState False s2)))"

text \<open>
  The \<^verbatim>\<open>DOMContentLoaded\<close> handler: it starts from an empty \<^verbatim>\<open>chatHistory\<close>, registers
  the two listeners and loads the saved history. The listeners are registered before the
  load, so they stay when the load raises.
\<close>

definition on_DOMContentLoaded :: "chat_state \<Rightarrow> ((exn \<times> chat_state) + chat_state) option" where
  "on_DOMContentLoaded s = loadHistoryFromLocalStorage (s\<lparr>chatHistory := Arr []\<rparr>)"

section \<open>The FAQ page\<close>

record faq_state =
  questionSelect :: string
  mcpServerInput :: string
  responseOutput :: string
  faq_sendButton_disabled :: bool
  processingIndicator_display :: string

text \<open>
  The submit handler up to the \<^verbatim>\<open>await\<close> of \<^verbatim>\<open>fetch\<close>: the new state and the request
  it has issued, if any.
\<close>

definition faq_request :: "string \<Rightarrow> string \<Rightarrow> request" where
  "faq_request selectedQuestion mcpServer =
     \<lparr>req_method = ''GET'', req_path = ''/api/faq'',
      req_query = (''question'', selectedQuestion)
        # (if mcpServer \<noteq> [] then [(''mcp-server'', mcpServer)] else []),
      req_headers = [], req_body = None\<rparr>"

definition faq_submit_send :: "faq_state \<Rightarrow> faq_state \<times> request option" where
  "faq_submit_send s =
     (let selectedQuestion = questionSelect s in
      if selectedQuestion = [] then (s\<lparr>responseOutput := ''Please select a question.''\<rparr>, None)
      else
        (let s1 = s\<lparr>faq_sendButton_disabled := True, processingIndicator_display := ''block'',
                    responseOutput := []\<rparr>;
             mcpServer = trim (mcpServerInput s)
         in (s1, Some (faq_request selectedQuestion mcpServer))))"




section \<open>The chat page as a transition system\<close>

text \<open>
  A page is the state of the script and the requests that have not ended yet. The user
  edits the input, acts on the send control, or clicks the new-chat button; a pending
  request ends; the platform's storage fills up or gets room again; the page is loaded
  again, which leaves the storage as it is.
\<close>

record page =
  page_state :: chat_state
  pending :: "request list"

datatype event =
    Input string
  | Submit
  | Resolve nat fetch_outcome
  | NewChat
  | Quota bool
  | Reload

definition state_after :: "(exn \<times> chat_state) + chat_state \<Rightarrow> chat_state" where
  "state_after r = (case r of Inl (e, s) \<Rightarrow> s | Inr s \<Rightarrow> s)"

text \<open>
  Modelled from the spec: the markup of the chat page, which is not among the sources. The
  page starts Idle (send control enabled, typing indicator hidden) with an empty message list
  and an empty input. The history is the empty array of the script's own declaration, and
  the storage has room until a \<open>Quota\<close> event says otherwise. Where the stored text is
  JSON the model does not read, the history and the message list after the load are not
  described, and \<open>open_page\<close> is the page as the load found it.
\<close>

definition initial_dom :: "string option \<Rightarrow> chat_state" where
  "initial_dom slot =
     \<lparr>chatHistory = Arr [], chatWindow = [], messageInput = [],
      sendButton_disabled = False, typingIndicator_hidden = True, localStorage = slot,
      storage_full = False\<rparr>"

definition open_page :: "string option \<Rightarrow> page" where
  "open_page slot =
     \<lparr>page_state =
        (case on_DOMContentLoaded (initial_dom slot) of
           None \<Rightarrow> initial_dom slot
         | Some r \<Rightarrow> state_after r),
      pending = []\<rparr>"

text \<open>
  Modelled from the spec: the form of the chat page, which is not among the sources. The
  send control is the submit affordance of the form: while it is disabled, a submit action
  delivers no \<^verbatim>\<open>submit\<close> event; otherwise the handler runs, and the request it
  issues, if any, is pending.
\<close>

definition submit_action :: "page \<Rightarrow> page" where
  "submit_action p =
     (if sendButton_disabled (page_state p) then p
      else
        (case handleFormSubmit_send (page_state p) of
           Inl e \<Rightarrow> p
         | Inr (s, None) \<Rightarrow> p\<lparr>page_state := s\<rparr>
         | Inr (s, Some r) \<Rightarrow> p\<lparr>page_state := s, pending := pending p @ [r]\<rparr>))"

fun step :: "event \<Rightarrow> page \<Rightarrow> page" where
  "step (Input t) p = p\<lparr>page_state := (page_state p)\<lparr>messageInput := t\<rparr>\<rparr>"
| "step Submit p = submit_action p"
| "step (Resolve i out) p =
     (if i < length (pending p)
      then p\<lparr>page_state := state_after (handleFormSubmit_resume out (page_state p)),
             pending := take i (pending p) @ drop (Suc i) (pending p)\<rparr>
      else p)"
| "step NewChat p = p\<lparr>page_state := handleNewChat (page_state p)\<rparr>"
| "step (Quota full) p = p\<lparr>page_state := (page_state p)\<lparr>storage_full := full\<rparr>\<rparr>"
| "step Reload p =
     (let q = open_page (localStorage (page_state p))
      in q\<lparr>page_state := (page_state q)\<lparr>storage_full := storage_full (page_state p)\<rparr>\<rparr>)"

definition run :: "event list \<Rightarrow> page \<Rightarrow> page" where
  "run evs p = foldl (\<lambda>q e. step e q) p evs"

section \<open>Notions used in the statements\<close>

subsection \<open>States, outcomes and messages\<close>

text \<open>
  The two states of the page as the script sets them: Idle, with the send button enabled and
  the typing indicator hidden, and Waiting, with the button disabled and the indicator shown.
\<close>

definition idle :: "chat_state \<Rightarrow> bool" where
  "idle s \<longleftrightarrow> \<not> sendButton_disabled s \<and> typingIndicator_hidden s"

definition waiting :: "chat_state \<Rightarrow> bool" where
  "waiting s \<longleftrightarrow> sendButton_disabled s \<and> \<not> typingIndicator_hidden s"

text \<open>
  The element \<^verbatim>\<open>renderMessage\<close> appends for a role and a text.
\<close>

definition message_element :: "string \<Rightarrow> string \<Rightarrow> message_div" where
  "message_element role text = \<lparr>classes = [''message'', role @ ''-message''], textContent = text\<rparr>"

text \<open>
  A call that fails: a transport failure, or a response with a status outside 200 to 299.
\<close>

definition failed :: "fetch_outcome \<Rightarrow> bool" where
  "failed out = (case out of Rejected d \<Rightarrow> True | Response status body \<Rightarrow> \<not> response_ok status)"

text \<open>
  The messages the handler pushes onto \<^verbatim>\<open>chatHistory\<close>, and the error turn, which it never
  pushes.
\<close>

definition user_turn :: "string \<Rightarrow> jsval" where
  "user_turn t = Obj [(''role'', Str ''user''), (''content'', Str t)]"


definition error_turn :: jsval where
  "error_turn = Obj [(''role'', Str ''error''), (''content'', Str connection_trouble)]"














subsection \<open>Examples\<close>

text \<open>
  The page after the user has sent \<open>hi\<close> in a new conversation, the request still pending; a
  stored history of two turns; a page whose input holds spaces only; the turn of the
  question on the leave policy, its answer as a text and as a document, and the same turn
  with the storage full when the answer arrives; a failed turn followed by a second message;
  the FAQ page as it loads, and with a request pending; the body of an error response of the
  FAQ service; and the texts of one engine for the exceptions it raises itself.
\<close>

definition example_waiting :: chat_state where
  "example_waiting =
     \<lparr>chatHistory = Arr [Obj [(''role'', Str ''user''), (''content'', Str ''hi'')]],
      chatWindow = [message_element ''user'' ''hi''],
      messageInput = [], sendButton_disabled = True, typingIndicator_hidden = False,
      localStorage = None, storage_full = False\<rparr>"



definition blank_example :: page where
  "blank_example = \<lparr>page_state = (initial_dom None)\<lparr>messageInput := ''   ''\<rparr>, pending = []\<rparr>"











definition faq_example :: faq_state where
  "faq_example =
     \<lparr>questionSelect = [], mcpServerInput = [], responseOutput = [],
      faq_sendButton_disabled = False, processingIndicator_display = ''none''\<rparr>"



subsection \<open>Notions of the proofs\<close>







definition flight_ok :: "page \<Rightarrow> bool" where
  "flight_ok p \<longleftrightarrow>
     (pending p = [] \<or> (\<exists>r. pending p = [r]) \<and> waiting (page_state p))
     \<and> (idle (page_state p) \<or> waiting (page_state p))"

section \<open>\<^verbatim>\<open>JSON.parse\<close> after \<^verbatim>\<open>JSON.stringify\<close>\<close>

subsection \<open>The tokens of the text written\<close>





































subsection \<open>The value read from the tokens\<close>








subsection \<open>The values of parsed documents\<close>









section \<open>The handlers of the chat page\<close>

lemma renderMessage_user:
  "renderMessage (Str ''user'') c s =
     Inr (s\<lparr>chatWindow := chatWindow s @ [message_element ''user'' (text_of c)]\<rparr>)"
  by (simp add: renderMessage_def classList_add_def is_ascii_space_def message_element_def)


lemma renderMessage_error:
  "renderMessage (Str ''error'') c s =
     Inr (s\<lparr>chatWindow := chatWindow s @ [message_element ''error'' (text_of c)]\<rparr>)"
  by (simp add: renderMessage_def classList_add_def is_ascii_space_def message_element_def)

lemma text_of_Str: "text_of (Str t) = t"
  by (simp add: text_of_def)

lemma chat_try_failed:
  assumes "failed out"
  shows "\<exists>e. chat_try out s = Inl (e, s)"
  using assms by (cases out) (simp_all add: failed_def chat_try_def)

subsection \<open>Messages\<close>














section \<open>Invariants of the chat page\<close>











lemma send_blank: "trim (messageInput s) = [] \<Longrightarrow> handleFormSubmit_send s = Inr (s, None)"
  by (simp add: handleFormSubmit_send_def)












lemma renderMessage_keeps:
  assumes "renderMessage r c s = Inr s'"
  shows "sendButton_disabled s' = sendButton_disabled s"
    and "typingIndicator_hidden s' = typingIndicator_hidden s"
    and "localStorage s' = localStorage s"
  using assms by (auto simp: renderMessage_def split: sum.splits)

lemma forEach_render_keeps:
  "sendButton_disabled (state_after (forEach_render ms s)) = sendButton_disabled s
   \<and> typingIndicator_hidden (state_after (forEach_render ms s)) = typingIndicator_hidden s
   \<and> localStorage (state_after (forEach_render ms s)) = localStorage s"
proof (induction ms arbitrary: s)
  case Nil
  then show ?case by (simp add: state_after_def)
next
  case (Cons m ms)
  show ?case
  proof (cases "get_prop m ''role''")
    case (Inl e)
    then show ?thesis by (simp add: state_after_def)
  next
    case role: (Inr r)
    show ?thesis
    proof (cases "get_prop m ''content''")
      case (Inl e)
      then show ?thesis using role by (simp add: state_after_def)
    next
      case content: (Inr c)
      show ?thesis
      proof (cases "renderMessage r c s")
        case (Inl e)
        then show ?thesis using role content by (simp add: state_after_def)
      next
        case (Inr s')
        then show ?thesis
          using role content Cons [of s'] renderMessage_keeps [OF Inr] by simp
      qed
    qed
  qed
qed

lemma load_keeps:
  assumes "loadHistoryFromLocalStorage s = Some r"
  shows "sendButton_disabled (state_after r) = sendButton_disabled s
   \<and> typingIndicator_hidden (state_after r) = typingIndicator_hidden s
   \<and> localStorage (state_after r) = localStorage s"
proof (cases "localStorage s")
  case None
  then show ?thesis using assms by (auto simp: loadHistoryFromLocalStorage_def state_after_def)
next
  case (Some t)
  show ?thesis
  proof (cases "t = []")
    case True
    then show ?thesis
      using Some assms by (auto simp: loadHistoryFromLocalStorage_def state_after_def)
  next
    case False
    show ?thesis
    proof (cases "JSON_parse t")
      case None
      then show ?thesis
        using Some False assms by (simp add: loadHistoryFromLocalStorage_def)
    next
      case parsed: (Some res)
      show ?thesis
      proof (cases res)
        case (Inl e)
        then show ?thesis
          using Some False parsed assms
          by (auto simp: loadHistoryFromLocalStorage_def state_after_def)
      next
        case (Inr h)
        show ?thesis
        proof (cases h)
          case (Arr ms)
          then show ?thesis
            using Some False parsed Inr assms
              forEach_render_keeps [of ms "s\<lparr>chatHistory := h, chatWindow := []\<rparr>"]
            by (auto simp: loadHistoryFromLocalStorage_def)
        qed (use Some False parsed Inr assms in
            \<open>auto simp: loadHistoryFromLocalStorage_def state_after_def\<close>)
      qed
    qed
  qed
qed

lemma open_page_idle: "idle (page_state (open_page slot))" "pending (open_page slot) = []"
  "localStorage (page_state (open_page slot)) = slot"
proof -
  show "pending (open_page slot) = []" by (simp add: open_page_def)
  show "idle (page_state (open_page slot))"
  proof (cases "on_DOMContentLoaded (initial_dom slot)")
    case None
    then show ?thesis by (simp add: open_page_def idle_def initial_dom_def)
  next
    case (Some r)
    then show ?thesis
      using load_keeps [of "(initial_dom slot)\<lparr>chatHistory := Arr []\<rparr>" r]
      by (simp add: open_page_def on_DOMContentLoaded_def idle_def initial_dom_def)
  qed
  show "localStorage (page_state (open_page slot)) = slot"
  proof (cases "on_DOMContentLoaded (initial_dom slot)")
    case None
    then show ?thesis by (simp add: open_page_def initial_dom_def)
  next
    case (Some r)
    then show ?thesis
      using load_keeps [of "(initial_dom slot)\<lparr>chatHistory := Arr []\<rparr>" r]
      by (simp add: open_page_def on_DOMContentLoaded_def initial_dom_def)
  qed
qed

lemma resume_state_idle: "idle (state_after (handleFormSubmit_resume out s))"
  by (cases "chat_try out s")
     (auto simp: handleFormSubmit_resume_def renderMessage_error setUiWaitingState_def idle_def
        state_after_def)

lemma send_waiting:
  assumes "handleFormSubmit_send s = Inr (s', ro)"
  shows "ro = None \<and> s' = s \<or> (\<exists>r. ro = Some r) \<and> waiting s'"
proof (cases "trim (messageInput s) = []")
  case True
  then show ?thesis using assms send_blank [of s] by simp
next
  case False
  then show ?thesis
    using assms
    by (cases "push (chatHistory s) (Obj [(''role'', Str ''user''),
          (''content'', Str (trim (messageInput s)))])")
       (auto simp: handleFormSubmit_send_def Let_def renderMessage_user setUiWaitingState_def
          waiting_def)
qed

lemma idle_not_waiting: "idle s \<Longrightarrow> \<not> waiting s" "waiting s \<Longrightarrow> sendButton_disabled s"
  "idle s \<Longrightarrow> \<not> sendButton_disabled s"
  by (auto simp: idle_def waiting_def)

lemma flight_ok_open: "flight_ok (open_page slot)"
  by (simp add: flight_ok_def open_page_idle)

lemma flight_ok_submit: "flight_ok p \<Longrightarrow> flight_ok (submit_action p)"
proof (cases "sendButton_disabled (page_state p)")
  case True
  assume "flight_ok p"
  then show ?thesis using True by (simp add: submit_action_def)
next
  case False
  assume ok: "flight_ok p"
  then have idle: "idle (page_state p)" and none: "pending p = []"
    using False idle_not_waiting(2) by (auto simp: flight_ok_def)
  show ?thesis
  proof (cases "handleFormSubmit_send (page_state p)")
    case (Inl e)
    then show ?thesis using ok False by (simp add: submit_action_def)
  next
    case (Inr sr)
    obtain s' ro where sr: "sr = (s', ro)" by (cases sr)
    from send_waiting [of "page_state p" s' ro] Inr sr
    have "ro = None \<and> s' = page_state p \<or> (\<exists>r. ro = Some r) \<and> waiting s'" by simp
    then show ?thesis
      using Inr sr False ok none
      by (auto simp: submit_action_def flight_ok_def)
  qed
qed

lemma flight_ok_step: "flight_ok p \<Longrightarrow> flight_ok (step e p)"
proof (cases e)
  case (Input t)
  assume "flight_ok p"
  then show ?thesis using Input by (simp add: flight_ok_def idle_def waiting_def)
next
  case Submit
  assume "flight_ok p"
  then show ?thesis using Submit flight_ok_submit by simp
next
  case (Resolve i out)
  assume "flight_ok p"
  then show ?thesis
    using Resolve resume_state_idle [of out "page_state p"]
    by (auto simp: flight_ok_def)
next
  case NewChat
  assume "flight_ok p"
  then show ?thesis using NewChat by (simp add: flight_ok_def idle_def waiting_def handleNewChat_def)
next
  case (Quota full)
  assume "flight_ok p"
  then show ?thesis using Quota by (simp add: flight_ok_def idle_def waiting_def)
next
  case Reload
  then show ?thesis
    using flight_ok_open [of "localStorage (page_state p)"]
    by (simp add: Let_def flight_ok_def idle_def waiting_def)
qed

lemma flight_ok_run: "flight_ok p \<Longrightarrow> flight_ok (run evs p)"
  by (induction evs arbitrary: p) (simp_all add: run_def flight_ok_step)

lemma waiting_submit_ignored: "waiting (page_state p) \<Longrightarrow> step Submit p = p"
  by (simp add: submit_action_def waiting_def)















section \<open>Runs of the examples\<close>



lemma open_page_None: "open_page None = \<lparr>page_state = initial_dom None, pending = []\<rparr>"
  by (simp add: open_page_def on_DOMContentLoaded_def loadHistoryFromLocalStorage_def
      initial_dom_def state_after_def)






text \<open>
  Texts that are JSON and that the model does not read: a number with a fraction, a number
  with an exponent, and a string with an escape above \<^verbatim>\<open>00FF\<close>. None of them is a
  \<open>SyntaxError\<close>.
\<close>

lemma texts_not_read:
  "JSON_parse ''[{\"role\":\"user\",\"content\":1.5}]'' = None"
  "JSON_parse ''[1e2]'' = None"
  "JSON_parse (''{\"response\":\"it'' @ [CHR 0x5C] @ ''u2019s\"}'') = None"
  by code_simp+









section \<open>The claims\<close>




text \<open>
  C2, as the claim states it, fails: after a transport failure the in-memory transcript is
  what it was, and is not the transcript with the error turn appended.
\<close>

theorem failed_turn_not_appended:
  "chatHistory (state_after (handleFormSubmit_resume (Rejected ''Failed to fetch'') example_waiting))
     = chatHistory example_waiting
   \<and> push (chatHistory example_waiting) error_turn
     \<noteq> Inr (chatHistory (state_after (handleFormSubmit_resume (Rejected ''Failed to fetch'')
          example_waiting)))"
  by (simp add: handleFormSubmit_resume_def chat_try_def renderMessage_error state_after_def
      setUiWaitingState_def example_waiting_def error_turn_def)

text \<open>
  C2, amended. When the call fails (a transport failure or a status outside 200 to 299), the
  handler renders one error element with the fixed text at the end of the chat window; the
  in-memory transcript and the stored history are left as they were.
\<close>

theorem failed_turn_renders_error:
  assumes "failed out"
  shows "\<exists>s'. handleFormSubmit_resume out s = Inr s'
    \<and> chatWindow s' = chatWindow s @ [message_element ''error'' connection_trouble]
    \<and> chatHistory s' = chatHistory s
    \<and> localStorage s' = localStorage s"
proof -
  from assms obtain e where "chat_try out s = Inl (e, s)"
    using chat_try_failed by blast
  then show ?thesis
    by (simp add: handleFormSubmit_resume_def renderMessage_error text_of_Str setUiWaitingState_def)
qed

theorem failed_turn_renders_error_witness:
  "failed (Response 503 (Inl SyntaxError)) \<and>
   (\<exists>s'. handleFormSubmit_resume (Response 503 (Inl SyntaxError)) example_waiting = Inr s'
    \<and> chatWindow s' = chatWindow example_waiting @ [message_element ''error'' connection_trouble]
    \<and> chatHistory s' = chatHistory example_waiting
    \<and> localStorage s' = localStorage example_waiting)"
proof -
  have h: "failed (Response 503 (Inl SyntaxError))"
    by (simp add: failed_def response_ok_def)
  show ?thesis
    using h failed_turn_renders_error [OF h, of example_waiting] by simp
qed

text \<open>
  C3. Whatever the stored value the page is opened on and whatever happens afterwards, at
  most one request is pending at any time; while one is pending the page is Waiting; and
  while the page is Waiting a submit action changes nothing: no user turn is appended and no
  request is issued.
\<close>

theorem one_turn_in_flight:
  "length (pending (run evs (open_page slot))) \<le> 1
   \<and> (pending (run evs (open_page slot)) = [] \<or> waiting (page_state (run evs (open_page slot))))
   \<and> (idle (page_state (run evs (open_page slot)))
      \<or> waiting (page_state (run evs (open_page slot)))
        \<and> step Submit (run evs (open_page slot)) = run evs (open_page slot))"
proof -
  have "flight_ok (run evs (open_page slot))"
    by (rule flight_ok_run) (rule flight_ok_open)
  then show ?thesis
    using waiting_submit_ignored [of "run evs (open_page slot)"]
    by (auto simp: flight_ok_def)
qed

theorem one_turn_in_flight_witness:
  "length (pending (run [Input ''hi'', Submit, Input ''again''] (open_page None))) \<le> 1
   \<and> pending (run [Input ''hi'', Submit, Input ''again''] (open_page None))
     = [chat_request (Arr [user_turn ''hi''])]
   \<and> waiting (page_state (run [Input ''hi'', Submit, Input ''again''] (open_page None)))
   \<and> step Submit (run [Input ''hi'', Submit, Input ''again''] (open_page None))
     = run [Input ''hi'', Submit, Input ''again''] (open_page None)"
proof -
  have a: "run [Input ''hi'', Submit, Input ''again''] (open_page None)
    = \<lparr>page_state = example_waiting\<lparr>messageInput := ''again''\<rparr>,
       pending = [chat_request (Arr [user_turn ''hi''])]\<rparr>"
    by (simp add: run_def open_page_None
        initial_dom_def submit_action_def handleFormSubmit_send_def trim_def
        is_trim_space_def renderMessage_user text_of_Str setUiWaitingState_def example_waiting_def
        Let_def user_turn_def)
  have b: "\<not> idle (example_waiting\<lparr>messageInput := ''again''\<rparr>)"
    by (simp add: idle_def example_waiting_def)
  show ?thesis
    using a b one_turn_in_flight [of "[Input ''hi'', Submit, Input ''again'']" None]
    by simp
qed

text \<open>
  The exclusion rests on the disabled send control alone. \<^verbatim>\<open>handleFormSubmit\<close> itself does
  not test the state: were it run while the page is Waiting, it would append a second user
  turn and issue a second request.
\<close>

lemma handler_is_not_guarded:
  "handleFormSubmit_send (example_waiting\<lparr>messageInput := ''again''\<rparr>)
     = Inr (example_waiting\<lparr>chatHistory := Arr [user_turn ''hi'', user_turn ''again''],
          chatWindow := [message_element ''user'' ''hi'', message_element ''user'' ''again'']\<rparr>,
        Some (chat_request (Arr [user_turn ''hi'', user_turn ''again''])))"
  by (simp add: handleFormSubmit_send_def trim_def is_trim_space_def renderMessage_user text_of_Str
      setUiWaitingState_def example_waiting_def Let_def user_turn_def)






text \<open>
  C6. Whatever the outcome of the pending call (a response of any status and body, or a
  transport failure), the handler ends without raising and leaves the page Idle: the send
  button enabled and the typing indicator hidden.
\<close>

theorem resume_releases_waiting:
  "\<exists>s'. handleFormSubmit_resume out s = Inr s' \<and> idle s'"
  by (cases "chat_try out s")
     (auto simp: handleFormSubmit_resume_def renderMessage_error setUiWaitingState_def idle_def)

theorem resume_releases_waiting_witness:
  "\<exists>s'. handleFormSubmit_resume (Response 500 (Inl SyntaxError)) example_waiting = Inr s' \<and> idle s'"
  by (rule resume_releases_waiting)



text \<open>
  C8, as the claim states it, fails: submitting the FAQ form with no question selected is
  not silent, it displays a prompt in the output element.
\<close>

theorem unselected_question_prompt:
  "faq_submit_send faq_example \<noteq> (faq_example, None)
   \<and> responseOutput (fst (faq_submit_send faq_example)) = ''Please select a question.''"
  by (simp add: faq_submit_send_def faq_example_def)

text \<open>
  C8, amended. Submitting the chat form with an empty or white-space input changes nothing:
  the handler returns the state as it is and issues no request, so the page (transcript,
  stored history, send button, typing indicator, pending requests) is the same. Submitting
  the FAQ form with no question selected issues no request and changes nothing but the
  output element, which displays \<^verbatim>\<open>Please select a question.\<close>
\<close>

theorem blank_submit:
  "(trim (messageInput (page_state p)) = [] \<longrightarrow>
      handleFormSubmit_send (page_state p) = Inr (page_state p, None) \<and> step Submit p = p)
   \<and> (questionSelect f = [] \<longrightarrow>
      faq_submit_send f = (f\<lparr>responseOutput := ''Please select a question.''\<rparr>, None))"
  by (simp add: handleFormSubmit_send_def submit_action_def faq_submit_send_def)

theorem blank_submit_witness:
  "trim (messageInput (page_state blank_example)) = []
   \<and> handleFormSubmit_send (page_state blank_example) = Inr (page_state blank_example, None)
   \<and> step Submit blank_example = blank_example
   \<and> questionSelect faq_example = []
   \<and> faq_submit_send faq_example
     = (faq_example\<lparr>responseOutput := ''Please select a question.''\<rparr>, None)"
proof -
  have a: "trim (messageInput (page_state blank_example)) = []"
    by (simp add: blank_example_def trim_def is_trim_space_def)
  have b: "questionSelect faq_example = []"
    by (simp add: faq_example_def)
  show ?thesis
    using a b blank_submit [of blank_example faq_example] by simp
qed







end
